theory Spec2Isabelle
  imports Main "HOL-Library.Word"
begin

section \<open>tempcloud: the file lifecycle of the backend worker\<close>

text \<open>
  The backend is a Cloudflare worker (\<^verbatim>\<open>backend/src/index.ts\<close>) with six route handlers
  over two stores: the key-value namespace \<^verbatim>\<open>FILE_KV\<close> (metadata) and the bucket
  \<^verbatim>\<open>R2_BUCKET\<close> (file bytes). Each handler is embedded as a function from the request
  and the state of the two stores to a response and the new state.

  Conventions of the embedding:
  \<^item> JavaScript numbers that the handlers use as counters, sizes and unix seconds are
    \<open>int\<close>; strings are \<open>string\<close>, read as their UTF-8 bytes.
  \<^item> \<^verbatim>\<open>Date.now()\<close> (floored to seconds) and \<^verbatim>\<open>crypto.randomUUID()\<close> are arguments
    \<open>now\<close> and \<open>fileUUID\<close> of the handler that reads them.
  \<^item> \<^verbatim>\<open>crypto.subtle.digest("SHA-256", _)\<close> is a platform primitive; it is the argument
    \<open>digest\<close> of the functions that hash.
  \<^item> The environment strings \<^verbatim>\<open>MAX_FILE_SIZE\<close>, \<^verbatim>\<open>DEFAULT_FILE_TTL\<close> and
    \<^verbatim>\<open>PRESIGNED_URL_TTL\<close> are held as the integers \<^verbatim>\<open>parseInt\<close> reads from them.
  \<^item> A metadata value is stored as the record itself: \<^verbatim>\<open>JSON.stringify\<close> followed by
    \<^verbatim>\<open>JSON.parse\<close> gives the record back.
  \<^item> Every store call returns (no exception), and a read sees the latest write. The
    reclamation of an entry by the store's own TTL is not a step of any handler; a
    state in which the entry is still present is one where it has not happened.
\<close>

subsection \<open>Data (\<^verbatim>\<open>types.ts\<close>)\<close>

record FileMetadata =
  filename :: string
  size_bytes :: int
  mime :: string
  uploaded_at :: int
  expires_at :: int
  downloads_left :: "int option"
  password_hash :: "string option"
  r2_key :: string

record UploadInitRequest =
  req_filename :: string
  req_size :: int
  req_mime :: "string option"
  req_expires_in :: "int option"
  req_max_downloads :: "int option"
  req_password :: "string option"

record UploadInitResponse =
  upload_url :: "string \<times> string \<times> int"
  file_uuid :: string
  init_expires_at :: int

record UploadFinalizeRequest =
  fin_file_uuid :: string

record UploadFinalizeResponse =
  download_link :: "string \<times> string"
  status :: string

record FileInfoResponse =
  info_filename :: string
  info_size :: int
  info_mime :: string
  info_uploaded_at :: int
  info_expires_at :: int
  info_downloads_left :: "int option"
  has_password :: bool

text \<open>
  \<open>upload_url\<close> holds the three parts the handler joins into
  \<^verbatim>\<open>${BASE_URL}/api/v1/upload/put/${fileUUID}?expires=${now + presignedTTL}\<close>, and
  \<open>download_link\<close> the two parts of \<^verbatim>\<open>${BASE_URL}/d/${file_uuid}\<close>.
\<close>

record Env =
  BASE_URL :: string
  PRESIGNED_URL_TTL :: int
  DEFAULT_FILE_TTL :: int
  MAX_FILE_SIZE :: int

text \<open>The codes of the error responses, each returned with its HTTP status.\<close>

datatype error_code =
    INVALID_REQUEST | FILE_TOO_LARGE | UPLOAD_EXPIRED | NOT_FOUND | EMPTY_BODY
  | FILE_MISSING | EXPIRED | LIMIT_REACHED | PASSWORD_REQUIRED | INVALID_PASSWORD

type_synonym ErrorResponse = "error_code \<times> nat"

subsection \<open>The two stores\<close>

record r2_object =
  body :: string
  contentType :: string
  custom_filename :: string
  custom_uuid :: string

text \<open>
  The calls a handler makes on the stores, in the order it makes them. The last
  constructor is the bucket deletion handed to \<^verbatim>\<open>executionCtx.waitUntil\<close>: the handler
  returns without awaiting it.
\<close>

datatype store_call =
    KV_get string
  | KV_put string FileMetadata int
  | KV_delete string
  | R2_put string r2_object
  | R2_head string
  | R2_get string
  | R2_delete string
  | WaitUntil_R2_delete string

record world =
  FILE_KV :: "string \<rightharpoonup> (FileMetadata \<times> int)"
  R2_BUCKET :: "string \<rightharpoonup> r2_object"
  waitUntil :: "string list"
  calls :: "store_call list"

text \<open>An entry of \<open>FILE_KV\<close> is the value with the \<^verbatim>\<open>expirationTtl\<close> it was put with.\<close>

definition kv_get :: "string \<Rightarrow> world \<Rightarrow> FileMetadata option \<times> world" where
  "kv_get key w = (map_option fst (FILE_KV w key), w\<lparr>calls := calls w @ [KV_get key]\<rparr>)"

definition kv_put :: "string \<Rightarrow> FileMetadata \<Rightarrow> int \<Rightarrow> world \<Rightarrow> world" where
  "kv_put key v ttl w =
     w\<lparr>FILE_KV := (FILE_KV w)(key \<mapsto> (v, ttl)), calls := calls w @ [KV_put key v ttl]\<rparr>"

definition kv_delete :: "string \<Rightarrow> world \<Rightarrow> world" where
  "kv_delete key w = w\<lparr>FILE_KV := (FILE_KV w)(key := None), calls := calls w @ [KV_delete key]\<rparr>"

definition r2_put :: "string \<Rightarrow> r2_object \<Rightarrow> world \<Rightarrow> world" where
  "r2_put key obj w =
     w\<lparr>R2_BUCKET := (R2_BUCKET w)(key \<mapsto> obj), calls := calls w @ [R2_put key obj]\<rparr>"

definition r2_head :: "string \<Rightarrow> world \<Rightarrow> int option \<times> world" where
  "r2_head key w =
     (map_option (\<lambda>obj. int (length (body obj))) (R2_BUCKET w key),
      w\<lparr>calls := calls w @ [R2_head key]\<rparr>)"

definition r2_get :: "string \<Rightarrow> world \<Rightarrow> r2_object option \<times> world" where
  "r2_get key w = (R2_BUCKET w key, w\<lparr>calls := calls w @ [R2_get key]\<rparr>)"

definition r2_delete :: "string \<Rightarrow> world \<Rightarrow> world" where
  "r2_delete key w =
     w\<lparr>R2_BUCKET := (R2_BUCKET w)(key := None), calls := calls w @ [R2_delete key]\<rparr>"

definition waitUntil_r2_delete :: "string \<Rightarrow> world \<Rightarrow> world" where
  "waitUntil_r2_delete key w =
     w\<lparr>waitUntil := waitUntil w @ [key], calls := calls w @ [WaitUntil_R2_delete key]\<rparr>"

text \<open>
  The platform completing the deletions handed to \<^verbatim>\<open>waitUntil\<close>, some time after the
  response: not a step of a handler.
\<close>

definition run_waitUntil :: "world \<Rightarrow> world" where
  "run_waitUntil w =
     w\<lparr>R2_BUCKET := fold (\<lambda>key b. b(key := None)) (waitUntil w) (R2_BUCKET w),
       waitUntil := []\<rparr>"

subsection \<open>Password hashing (\<^verbatim>\<open>crypto.ts\<close>)\<close>

type_synonym byte = "8 word"

definition encode :: "string \<Rightarrow> byte list" where
  "encode s = map of_char s"

definition hex_digit :: "nat \<Rightarrow> char" where
  "hex_digit d = ''0123456789abcdef'' ! d"

fun toString16 :: "nat \<Rightarrow> string" where
  "toString16 n =
     (if n < 16 then [hex_digit n] else toString16 (n div 16) @ [hex_digit (n mod 16)])"

definition padStart :: "nat \<Rightarrow> char \<Rightarrow> string \<Rightarrow> string" where
  "padStart n c s = replicate (n - length s) c @ s"

definition hashPassword :: "(byte list \<Rightarrow> byte list) \<Rightarrow> string \<Rightarrow> string" where
  "hashPassword digest password =
     (let data = encode password;
          hashArray = digest data
      in concat (map (\<lambda>b. padStart 2 CHR ''0'' (toString16 (unat b))) hashArray))"

text \<open>
  \<^verbatim>\<open>verifyPassword\<close> compares with the built-in \<^verbatim>\<open>===\<close> on strings. The embedding has
  its result; how long the comparison takes is not a part of it.
\<close>

definition verifyPassword :: "(byte list \<Rightarrow> byte list) \<Rightarrow> string \<Rightarrow> string \<Rightarrow> bool" where
  "verifyPassword digest password storedHash =
     (let hash = hashPassword digest password in hash = storedHash)"

subsection \<open>The route handlers (\<^verbatim>\<open>index.ts\<close>)\<close>

text \<open>
  \<^verbatim>\<open>POST /api/v1/upload/init\<close>. The body is \<open>None\<close> when the request has no JSON body.
  \<^verbatim>\<open>!body.filename\<close> holds of the empty string and \<^verbatim>\<open>!body.size\<close> of the number 0
  (and of a field that is missing, which is read here as the empty string and as 0);
  it does not hold of a negative number. An optional field that is missing is \<open>None\<close>.
\<close>

definition upload_init ::
  "Env \<Rightarrow> (byte list \<Rightarrow> byte list) \<Rightarrow> int \<Rightarrow> string \<Rightarrow> UploadInitRequest option \<Rightarrow> world
     \<Rightarrow> (ErrorResponse + UploadInitResponse) \<times> world" where
  "upload_init env digest now fileUUID body_opt w =
     (case body_opt of
        None \<Rightarrow> (Inl (INVALID_REQUEST, 400), w)
      | Some b \<Rightarrow>
          if req_filename b = [] \<or> req_size b = 0 then (Inl (INVALID_REQUEST, 400), w)
          else
            let maxSize = MAX_FILE_SIZE env in
            if req_size b > maxSize then (Inl (FILE_TOO_LARGE, 413), w)
            else
              let r2Key = ''uploads/'' @ fileUUID @ ''/'' @ req_filename b;
                  defaultTTL = DEFAULT_FILE_TTL env;
                  expiresIn = (case req_expires_in b of
                                 Some e \<Rightarrow> if e > 0 then e else defaultTTL
                               | None \<Rightarrow> defaultTTL);
                  expiresAt = now + expiresIn;
                  passwordHash = (case req_password b of
                                    Some p \<Rightarrow> if length p > 0 then Some (hashPassword digest p)
                                              else None
                                  | None \<Rightarrow> None);
                  metadata = \<lparr>filename = req_filename b,
                              size_bytes = req_size b,
                              mime = (case req_mime b of
                                        Some t \<Rightarrow> if t = [] then ''application/octet-stream'' else t
                                      | None \<Rightarrow> ''application/octet-stream''),
                              uploaded_at = now,
                              expires_at = expiresAt,
                              downloads_left = (case req_max_downloads b of
                                                  Some n \<Rightarrow> if n > 0 then Some n else None
                                                | None \<Rightarrow> None),
                              password_hash = passwordHash,
                              r2_key = r2Key\<rparr>;
                  kvKey = ''pending:'' @ fileUUID;
                  w1 = kv_put kvKey metadata 900 w;
                  presignedTTL = PRESIGNED_URL_TTL env
              in (Inr \<lparr>upload_url = (BASE_URL env, fileUUID, now + presignedTTL),
                       file_uuid = fileUUID,
                       init_expires_at = expiresAt\<rparr>, w1))"

text \<open>
  \<^verbatim>\<open>PUT /api/v1/upload/put/:uuid\<close>. \<open>expiresParam\<close> is the integer read from the
  query parameter, \<open>None\<close> when the parameter is absent, empty or not a number (the
  comparison with \<^verbatim>\<open>NaN\<close> is false, so the check is passed as if it were skipped);
  \<open>req_body\<close> is the request body, \<open>None\<close> when there is none. The size \<^verbatim>\<open>head\<close>
  reports for the stored object is the length of the body.
\<close>

definition upload_put ::
  "int \<Rightarrow> string \<Rightarrow> int option \<Rightarrow> string option \<Rightarrow> world
     \<Rightarrow> (ErrorResponse + string \<times> string) \<times> world" where
  "upload_put now uuid expiresParam req_body w =
     (if (case expiresParam of Some expiresAt \<Rightarrow> now > expiresAt | None \<Rightarrow> False)
      then (Inl (UPLOAD_EXPIRED, 410), w)
      else
        let kvKey = ''pending:'' @ uuid;
            (raw, w1) = kv_get kvKey w
        in case raw of
             None \<Rightarrow> (Inl (NOT_FOUND, 404), w1)
           | Some metadata \<Rightarrow>
               (case req_body of
                  None \<Rightarrow> (Inl (EMPTY_BODY, 400), w1)
                | Some bytes \<Rightarrow>
                    let w2 = r2_put (r2_key metadata)
                               \<lparr>body = bytes, contentType = mime metadata,
                                custom_filename = filename metadata, custom_uuid = uuid\<rparr> w1
                    in (Inr (''uploaded'', uuid), w2)))"

text \<open>\<^verbatim>\<open>POST /api/v1/upload/finalize\<close>.\<close>

definition upload_finalize ::
  "Env \<Rightarrow> int \<Rightarrow> UploadFinalizeRequest option \<Rightarrow> world
     \<Rightarrow> (ErrorResponse + UploadFinalizeResponse) \<times> world" where
  "upload_finalize env now body_opt w =
     (case body_opt of
        None \<Rightarrow> (Inl (INVALID_REQUEST, 400), w)
      | Some b \<Rightarrow>
          if fin_file_uuid b = [] then (Inl (INVALID_REQUEST, 400), w)
          else
            let pendingKey = ''pending:'' @ fin_file_uuid b;
                (raw, w1) = kv_get pendingKey w
            in (case raw of
                  None \<Rightarrow> (Inl (NOT_FOUND, 404), w1)
                | Some metadata0 \<Rightarrow>
                    let (r2Head, w2) = r2_head (r2_key metadata0) w1
                    in (case r2Head of
                          None \<Rightarrow> (Inl (FILE_MISSING, 404), w2)
                        | Some head_size \<Rightarrow>
                            let metadata = metadata0\<lparr>size_bytes := head_size\<rparr>;
                                ttl = expires_at metadata - now
                            in if ttl \<le> 0 then (Inl (EXPIRED, 410), w2)
                               else
                                 let activeKey = ''file:'' @ fin_file_uuid b;
                                     w3 = kv_put activeKey metadata ttl w2;
                                     w4 = kv_delete pendingKey w3
                                 in (Inr \<lparr>download_link = (BASE_URL env, fin_file_uuid b),
                                          status = ''active''\<rparr>, w4))))"

text \<open>\<^verbatim>\<open>GET /api/v1/file/:uuid/info\<close>. The handler does not read the clock.\<close>

definition file_info :: "string \<Rightarrow> world \<Rightarrow> (ErrorResponse + FileInfoResponse) \<times> world" where
  "file_info uuid w =
     (let (raw, w1) = kv_get (''file:'' @ uuid) w
      in case raw of
           None \<Rightarrow> (Inl (NOT_FOUND, 404), w1)
         | Some metadata \<Rightarrow>
             (Inr \<lparr>info_filename = filename metadata,
                   info_size = size_bytes metadata,
                   info_mime = mime metadata,
                   info_uploaded_at = uploaded_at metadata,
                   info_expires_at = expires_at metadata,
                   info_downloads_left = downloads_left metadata,
                   has_password = (password_hash metadata \<noteq> None)\<rparr>, w1))"

text \<open>
  \<^verbatim>\<open>GET /api/v1/file/:uuid/download\<close>. The password comes from the query parameter or
  the header \<^verbatim>\<open>X-File-Password\<close>; \<^verbatim>\<open>a || b\<close> on optional strings takes \<open>a\<close> unless it is
  absent or empty. The response carries the streamed bytes and the three headers taken
  from the metadata. The handler's local \<^verbatim>\<open>isLastDownload\<close> is not part of the HTTP
  response; the embedding returns it beside the response so that it can be observed.
\<close>

definition js_or :: "string option \<Rightarrow> string option \<Rightarrow> string option" where
  "js_or a b = (case a of Some s \<Rightarrow> if s \<noteq> [] then Some s else b | None \<Rightarrow> b)"

record DownloadResponse =
  resp_body :: string
  content_type :: string
  content_disposition_filename :: string
  content_length :: int
  isLastDownload :: bool

definition file_download ::
  "(byte list \<Rightarrow> byte list) \<Rightarrow> int \<Rightarrow> string \<Rightarrow> string option \<Rightarrow> string option \<Rightarrow> world
     \<Rightarrow> (ErrorResponse + DownloadResponse) \<times> world" where
  "file_download digest now uuid query_password header_password w =
     (let kvKey = ''file:'' @ uuid;
          (raw, w1) = kv_get kvKey w
      in case raw of
           None \<Rightarrow> (Inl (NOT_FOUND, 404), w1)
         | Some metadata0 \<Rightarrow>
             if now > expires_at metadata0
             then (Inl (EXPIRED, 410), kv_delete kvKey w1)
             else if (case downloads_left metadata0 of Some d \<Rightarrow> d \<le> 0 | None \<Rightarrow> False)
             then (Inl (LIMIT_REACHED, 410), r2_delete (r2_key metadata0) (kv_delete kvKey w1))
             else
               let password = (case js_or (js_or query_password header_password) (Some [])
                               of Some p \<Rightarrow> p | None \<Rightarrow> [])
               in if password_hash metadata0 \<noteq> None \<and> password = []
                  then (Inl (PASSWORD_REQUIRED, 401), w1)
                  else if (case password_hash metadata0 of
                             Some h \<Rightarrow> \<not> verifyPassword digest password h
                           | None \<Rightarrow> False)
                  then (Inl (INVALID_PASSWORD, 403), w1)
                  else
                    let metadata = metadata0\<lparr>downloads_left :=
                                     map_option (\<lambda>d. d - 1) (downloads_left metadata0)\<rparr>;
                        isLast = (case downloads_left metadata of
                                    Some d \<Rightarrow> d \<le> 0 | None \<Rightarrow> False);
                        ttl = expires_at metadata - now;
                        w2 = (if \<not> isLast \<and> downloads_left metadata \<noteq> None \<and> ttl > 0
                              then kv_put kvKey metadata ttl w1 else w1);
                        (r2Object, w3) = r2_get (r2_key metadata) w2
                    in (case r2Object of
                          None \<Rightarrow> (Inl (FILE_MISSING, 404), kv_delete kvKey w3)
                        | Some obj \<Rightarrow>
                            let w4 = (if isLast
                                      then waitUntil_r2_delete (r2_key metadata)
                                             (kv_delete kvKey w3)
                                      else w3)
                            in (Inr \<lparr>resp_body = body obj,
                                     content_type = mime metadata,
                                     content_disposition_filename = filename metadata,
                                     content_length = size_bytes metadata,
                                     isLastDownload = isLast\<rparr>, w4)))"

text \<open>
  \<^verbatim>\<open>DELETE /api/v1/file/:uuid\<close>. The two deletions are started in the order of the
  array given to \<^verbatim>\<open>Promise.all\<close> and both have completed when the handler returns.
\<close>

definition file_delete :: "string \<Rightarrow> world \<Rightarrow> (ErrorResponse + string) \<times> world" where
  "file_delete uuid w =
     (let kvKey = ''file:'' @ uuid;
          (raw, w1) = kv_get kvKey w
      in case raw of
           None \<Rightarrow> (Inl (NOT_FOUND, 404), w1)
         | Some metadata \<Rightarrow>
             (Inr ''deleted'', kv_delete kvKey (r2_delete (r2_key metadata) w1)))"

text \<open>A run of downloads of one file, one after the other, each at its own time and
  with its own supplied password.\<close>

fun download_seq ::
  "(byte list \<Rightarrow> byte list) \<Rightarrow> string \<Rightarrow> (int \<times> string option \<times> string option) list \<Rightarrow> world
     \<Rightarrow> (ErrorResponse + DownloadResponse) list \<times> world" where
  "download_seq digest uuid [] w = ([], w)"
| "download_seq digest uuid ((now, q, h) # cs) w =
     (let (r, w1) = file_download digest now uuid q h w;
          (rs, w2) = download_seq digest uuid cs w1
      in (r # rs, w2))"

subsection \<open>Concrete states\<close>

text \<open>
  The states and inputs at which the theorems below are instantiated. \<open>test_digest\<close>
  stands in for SHA-256 there; every theorem that mentions a digest holds for all of
  them.
\<close>

definition test_digest :: "byte list \<Rightarrow> byte list" where
  "test_digest bs = rev bs"

definition test_env :: Env where
  "test_env = \<lparr>BASE_URL = ''http://localhost:8787'', PRESIGNED_URL_TTL = 3600,
               DEFAULT_FILE_TTL = 86400, MAX_FILE_SIZE = 104857600\<rparr>"

definition test_meta :: "int option \<Rightarrow> string option \<Rightarrow> FileMetadata" where
  "test_meta n ph =
     \<lparr>filename = ''a.txt'', size_bytes = 10, mime = ''text/plain'', uploaded_at = 0,
      expires_at = 100, downloads_left = n, password_hash = ph,
      r2_key = ''uploads/X/a.txt''\<rparr>"

definition test_object :: r2_object where
  "test_object = \<lparr>body = ''0123456789'', contentType = ''text/plain'',
                   custom_filename = ''a.txt'', custom_uuid = ''X''\<rparr>"

definition empty_world :: world where
  "empty_world = \<lparr>FILE_KV = Map.empty, R2_BUCKET = Map.empty, waitUntil = [], calls = []\<rparr>"

definition active_world :: "int option \<Rightarrow> string option \<Rightarrow> world" where
  "active_world n ph =
     \<lparr>FILE_KV = [''file:X'' \<mapsto> (test_meta n ph, 100)],
      R2_BUCKET = [''uploads/X/a.txt'' \<mapsto> test_object],
      waitUntil = [], calls = []\<rparr>"

definition test_request :: "string \<Rightarrow> int \<Rightarrow> UploadInitRequest" where
  "test_request name n =
     \<lparr>req_filename = name, req_size = n, req_mime = None, req_expires_in = Some 60,
      req_max_downloads = Some 1, req_password = None\<rparr>"

definition pending_world :: world where
  "pending_world =
     \<lparr>FILE_KV = [''pending:X'' \<mapsto> (test_meta (Some 1) None, 900)],
      R2_BUCKET = Map.empty, waitUntil = [], calls = []\<rparr>"

section \<open>Properties\<close>

lemmas store_defs = kv_get_def kv_put_def kv_delete_def r2_put_def r2_head_def r2_get_def
  r2_delete_def waitUntil_r2_delete_def

lemmas test_defs = test_digest_def test_env_def test_meta_def test_object_def empty_world_def
  active_world_def pending_world_def test_request_def

subsection \<open>Single steps of a download\<close>

lemma download_nonfinal:
  assumes "FILE_KV w (''file:'' @ uuid) = Some (m, t)"
    and "downloads_left m = Some d" and "2 \<le> d"
    and "password_hash m = None"
    and "R2_BUCKET w (r2_key m) = Some obj"
    and "now < expires_at m"
  shows "\<exists>r w'. file_download digest now uuid q h w = (Inr r, w') \<and> \<not> isLastDownload r
           \<and> FILE_KV w' = (FILE_KV w)(''file:'' @ uuid \<mapsto>
                 (m\<lparr>downloads_left := Some (d - 1)\<rparr>, expires_at m - now))
           \<and> R2_BUCKET w' = R2_BUCKET w"
  using assms by (simp add: file_download_def store_defs Let_def)

lemma download_final:
  assumes "FILE_KV w (''file:'' @ uuid) = Some (m, t)"
    and "downloads_left m = Some 1"
    and "password_hash m = None"
    and "R2_BUCKET w (r2_key m) = Some obj"
    and "now \<le> expires_at m"
  shows "\<exists>r w'. file_download digest now uuid q h w = (Inr r, w') \<and> isLastDownload r
           \<and> FILE_KV w' = (FILE_KV w)(''file:'' @ uuid := None)"
  using assms by (simp add: file_download_def store_defs Let_def)

lemma download_absent:
  assumes "FILE_KV w (''file:'' @ uuid) = None"
  shows "fst (file_download digest now uuid q h w) = Inl (NOT_FOUND, 404)"
  using assms by (simp add: file_download_def store_defs)

lemma FILE_KV_run_waitUntil: "FILE_KV (run_waitUntil w) = FILE_KV w"
  by (simp add: run_waitUntil_def)

subsection \<open>A limited file is served exactly as often as its limit\<close>

text \<open>
  The run of downloads that uses up a limit: the counter equals the number of calls,
  every call but the last is not final, the last is final and leaves no metadata.
\<close>

lemma download_seq_countdown:
  assumes "FILE_KV w (''file:'' @ uuid) = Some (m, t)"
    and "downloads_left m = Some (int (length cs))" and "cs \<noteq> []"
    and "password_hash m = None"
    and "R2_BUCKET w (r2_key m) = Some obj"
    and "\<forall>c\<in>set cs. fst c < expires_at m"
  shows "map (map_sum id isLastDownload) (fst (download_seq digest uuid cs w))
           = replicate (length cs - 1) (Inr False) @ [Inr True]
         \<and> FILE_KV (snd (download_seq digest uuid cs w)) (''file:'' @ uuid) = None"
  using assms
proof (induction cs arbitrary: w m t)
  case Nil
  then show ?case by simp
next
  case (Cons c cs)
  obtain now q h where c: "c = (now, q, h)" by (cases c)
  from Cons.prems c have now: "now < expires_at m" by simp
  show ?case
  proof (cases "cs = []")
    case True
    with Cons.prems have d: "downloads_left m = Some 1" by simp
    from download_final[OF Cons.prems(1) d Cons.prems(4,5), of now digest q h] now
    obtain r w' where "file_download digest now uuid q h w = (Inr r, w')" "isLastDownload r"
      "FILE_KV w' = (FILE_KV w)(''file:'' @ uuid := None)" by auto
    with True c show ?thesis by simp
  next
    case False
    then have len: "2 \<le> int (length (c # cs))" by (cases cs) simp_all
    from download_nonfinal[OF Cons.prems(1,2) len Cons.prems(4,5) now, of digest q h]
    obtain r w' where step: "file_download digest now uuid q h w = (Inr r, w')"
      "\<not> isLastDownload r"
      "FILE_KV w' = (FILE_KV w)(''file:'' @ uuid \<mapsto>
          (m\<lparr>downloads_left := Some (int (length (c # cs)) - 1)\<rparr>, expires_at m - now))"
      "R2_BUCKET w' = R2_BUCKET w" by auto
    let ?m = "m\<lparr>downloads_left := Some (int (length (c # cs)) - 1)\<rparr>"
    have ih: "map (map_sum id isLastDownload) (fst (download_seq digest uuid cs w'))
           = replicate (length cs - 1) (Inr False) @ [Inr True]
         \<and> FILE_KV (snd (download_seq digest uuid cs w')) (''file:'' @ uuid) = None"
    proof (rule Cons.IH[where m = ?m and t = "expires_at m - now"])
      show "FILE_KV w' (''file:'' @ uuid) = Some (?m, expires_at m - now)"
        using step(3) by simp
      show "downloads_left ?m = Some (int (length cs))" by simp
      show "cs \<noteq> []" by (rule False)
      show "password_hash ?m = None" using Cons.prems(4) by simp
      show "R2_BUCKET w' (r2_key ?m) = Some obj" using step(4) Cons.prems(5) by simp
      show "\<forall>c\<in>set cs. fst c < expires_at ?m" using Cons.prems(6) by simp
    qed
    from False obtain k where k: "length cs = Suc k" by (cases cs) simp_all
    show ?thesis using step(1,2) ih c k by (simp add: split_def Let_def id_def)
  qed
qed

text \<open>
  Claim C1, as the handler has it. Let the active record of \<open>uuid\<close> have no password
  and \<open>downloads_left = N\<close> with \<open>N \<ge> 1\<close>, let its blob be in the bucket, and let \<open>N\<close>
  downloads be made one after the other, each before \<open>expires_at\<close>. Then all \<open>N\<close>
  succeed, the first \<open>N - 1\<close> with \<open>isLastDownload = false\<close> and the \<open>N\<close>th with
  \<open>isLastDownload = true\<close>, and a further download fails with \<open>NOT_FOUND\<close> (the final
  download has deleted the metadata), whether or not the deferred deletion of the blob
  has run in between.
\<close>

theorem consume_n_then_not_found:
  assumes "FILE_KV w (''file:'' @ uuid) = Some (m, t)"
    and "downloads_left m = Some (int (length cs))" and "cs \<noteq> []"
    and "password_hash m = None"
    and "R2_BUCKET w (r2_key m) = Some obj"
    and "\<forall>c\<in>set cs. fst c < expires_at m"
  shows "map (map_sum id isLastDownload) (fst (download_seq digest uuid cs w))
           = replicate (length cs - 1) (Inr False) @ [Inr True]
         \<and> fst (file_download digest now uuid q h (snd (download_seq digest uuid cs w)))
           = Inl (NOT_FOUND, 404)
         \<and> fst (file_download digest now uuid q h
                  (run_waitUntil (snd (download_seq digest uuid cs w))))
           = Inl (NOT_FOUND, 404)"
  using download_seq_countdown[OF assms, of digest]
  by (simp add: download_absent FILE_KV_run_waitUntil)

theorem consume_n_then_not_found_witness:
  "map (map_sum id isLastDownload)
     (fst (download_seq test_digest ''X'' [(50, None, None), (60, None, None)]
             (active_world (Some 2) None)))
     = [Inr False, Inr True]
   \<and> fst (file_download test_digest 70 ''X'' None None
            (snd (download_seq test_digest ''X'' [(50, None, None), (60, None, None)]
                    (active_world (Some 2) None))))
     = Inl (NOT_FOUND, 404)"
  using consume_n_then_not_found[of "active_world (Some 2) None" "''X''"
      "test_meta (Some 2) None" 100 "[(50, None, None), (60, None, None)]" test_object
      test_digest 70 None None]
  by (simp add: test_defs)

text \<open>
  Claim C1 as stated has the call after the final one fail with \<open>LIMIT_REACHED\<close>. With
  a limit of one: the first download is final, and the second finds no record.
\<close>

theorem final_download_then_limit_reached_counterexample:
  "fst (file_download test_digest 50 ''X'' None None (active_world (Some 1) None))
     = Inr \<lparr>resp_body = ''0123456789'', content_type = ''text/plain'',
            content_disposition_filename = ''a.txt'', content_length = 10,
            isLastDownload = True\<rparr>
   \<and> fst (file_download test_digest 60 ''X'' None None
            (snd (file_download test_digest 50 ''X'' None None (active_world (Some 1) None))))
     = Inl (NOT_FOUND, 404)
   \<and> fst (file_download test_digest 60 ''X'' None None
            (snd (file_download test_digest 50 ''X'' None None (active_world (Some 1) None))))
     \<noteq> Inl (LIMIT_REACHED, 410)"
  by (simp add: file_download_def store_defs test_defs Let_def js_or_def)

subsection \<open>The order of the checks of a download\<close>

text \<open>
  Claim C2. A download checks, in this order and stopping at the first failure: the
  active record is absent, then \<open>NOT_FOUND\<close> with no store changed; otherwise
  \<open>now > expires_at\<close>, then the metadata entry is deleted and the error is \<open>EXPIRED\<close>;
  otherwise \<open>downloads_left\<close> is present and \<open>\<le> 0\<close>, then the metadata entry and the
  blob are deleted and the error is \<open>LIMIT_REACHED\<close>. In the two cleanup cases the
  deletions are calls the handler has made on the stores when it returns (they are in
  \<open>calls\<close> and in the returned stores, and nothing is handed to \<open>waitUntil\<close>). An
  outcome of the password check (\<open>PASSWORD_REQUIRED\<close>, \<open>INVALID_PASSWORD\<close>) is only
  possible when all three checks have passed. The three failing outcomes do not depend
  on the supplied password or on the digest.
\<close>

theorem download_check_order:
  "(FILE_KV w (''file:'' @ uuid) = None \<longrightarrow>
      file_download digest now uuid q h w
        = (Inl (NOT_FOUND, 404), w\<lparr>calls := calls w @ [KV_get (''file:'' @ uuid)]\<rparr>))
   \<and> (\<forall>m t. FILE_KV w (''file:'' @ uuid) = Some (m, t) \<and> now > expires_at m \<longrightarrow>
      file_download digest now uuid q h w
        = (Inl (EXPIRED, 410),
           w\<lparr>FILE_KV := (FILE_KV w)(''file:'' @ uuid := None),
             calls := calls w @ [KV_get (''file:'' @ uuid), KV_delete (''file:'' @ uuid)]\<rparr>))
   \<and> (\<forall>m t d. FILE_KV w (''file:'' @ uuid) = Some (m, t) \<and> now \<le> expires_at m
          \<and> downloads_left m = Some d \<and> d \<le> 0 \<longrightarrow>
      file_download digest now uuid q h w
        = (Inl (LIMIT_REACHED, 410),
           w\<lparr>FILE_KV := (FILE_KV w)(''file:'' @ uuid := None),
             R2_BUCKET := (R2_BUCKET w)(r2_key m := None),
             calls := calls w @ [KV_get (''file:'' @ uuid), KV_delete (''file:'' @ uuid),
                                 R2_delete (r2_key m)]\<rparr>))
   \<and> (fst (file_download digest now uuid q h w)
          \<in> {Inl (PASSWORD_REQUIRED, 401), Inl (INVALID_PASSWORD, 403)} \<longrightarrow>
      (\<exists>m t. FILE_KV w (''file:'' @ uuid) = Some (m, t) \<and> now \<le> expires_at m
          \<and> (\<forall>d. downloads_left m = Some d \<longrightarrow> 0 < d)
          \<and> password_hash m \<noteq> None))"
proof (intro conjI allI impI)
  assume "FILE_KV w (''file:'' @ uuid) = None"
  then show "file_download digest now uuid q h w
        = (Inl (NOT_FOUND, 404), w\<lparr>calls := calls w @ [KV_get (''file:'' @ uuid)]\<rparr>)"
    by (simp add: file_download_def store_defs Let_def)
next
  fix m t
  assume "FILE_KV w (''file:'' @ uuid) = Some (m, t) \<and> now > expires_at m"
  then show "file_download digest now uuid q h w
        = (Inl (EXPIRED, 410),
           w\<lparr>FILE_KV := (FILE_KV w)(''file:'' @ uuid := None),
             calls := calls w @ [KV_get (''file:'' @ uuid), KV_delete (''file:'' @ uuid)]\<rparr>)"
    by (simp add: file_download_def store_defs Let_def)
next
  fix m t d
  assume "FILE_KV w (''file:'' @ uuid) = Some (m, t) \<and> now \<le> expires_at m
          \<and> downloads_left m = Some d \<and> d \<le> 0"
  then show "file_download digest now uuid q h w
        = (Inl (LIMIT_REACHED, 410),
           w\<lparr>FILE_KV := (FILE_KV w)(''file:'' @ uuid := None),
             R2_BUCKET := (R2_BUCKET w)(r2_key m := None),
             calls := calls w @ [KV_get (''file:'' @ uuid), KV_delete (''file:'' @ uuid),
                                 R2_delete (r2_key m)]\<rparr>)"
    by (simp add: file_download_def store_defs Let_def)
next
  assume a: "fst (file_download digest now uuid q h w)
          \<in> {Inl (PASSWORD_REQUIRED, 401), Inl (INVALID_PASSWORD, 403)}"
  show "\<exists>m t. FILE_KV w (''file:'' @ uuid) = Some (m, t) \<and> now \<le> expires_at m
          \<and> (\<forall>d. downloads_left m = Some d \<longrightarrow> 0 < d)
          \<and> password_hash m \<noteq> None"
  proof (cases "FILE_KV w (''file:'' @ uuid)")
    case None
    with a show ?thesis by (simp add: file_download_def store_defs Let_def)
  next
    case (Some e)
    obtain m t where e: "e = (m, t)" by (cases e)
    note kv = Some[unfolded e]
    have expired: "fst (file_download digest now uuid q h w) = Inl (EXPIRED, 410)"
      if "expires_at m < now"
      using kv that by (simp add: file_download_def store_defs Let_def)
    have limit: "fst (file_download digest now uuid q h w) = Inl (LIMIT_REACHED, 410)"
      if "now \<le> expires_at m" "downloads_left m = Some d" "d \<le> 0" for d
      using kv that by (simp add: file_download_def store_defs Let_def)
    have open_file: "fst (file_download digest now uuid q h w)
          \<notin> {Inl (PASSWORD_REQUIRED, 401), Inl (INVALID_PASSWORD, 403)}"
      if "password_hash m = None"
      using kv that
      by (simp add: file_download_def store_defs Let_def split: option.splits)
    from a expired have "now \<le> expires_at m" by fastforce
    moreover from a limit this have "\<forall>d. downloads_left m = Some d \<longrightarrow> 0 < d"
      by fastforce
    moreover from a open_file have "password_hash m \<noteq> None" by blast
    ultimately show ?thesis using kv by simp
  qed
qed

theorem download_check_order_witness:
  "file_download test_digest 50 ''X'' None None empty_world
     = (Inl (NOT_FOUND, 404), empty_world\<lparr>calls := [KV_get ''file:X'']\<rparr>)
   \<and> file_download test_digest 101 ''X'' None None (active_world (Some 0) (Some ''00''))
     = (Inl (EXPIRED, 410),
        (active_world (Some 0) (Some ''00''))\<lparr>FILE_KV := Map.empty,
           calls := [KV_get ''file:X'', KV_delete ''file:X'']\<rparr>)
   \<and> file_download test_digest 100 ''X'' None None (active_world (Some 0) (Some ''00''))
     = (Inl (LIMIT_REACHED, 410),
        (active_world (Some 0) (Some ''00''))\<lparr>FILE_KV := Map.empty, R2_BUCKET := Map.empty,
           calls := [KV_get ''file:X'', KV_delete ''file:X'', R2_delete ''uploads/X/a.txt'']\<rparr>)
   \<and> fst (file_download test_digest 100 ''X'' None None (active_world (Some 1) (Some ''00'')))
     = Inl (PASSWORD_REQUIRED, 401)
   \<and> FILE_KV (active_world (Some 1) (Some ''00'')) ''file:X''
     = Some (test_meta (Some 1) (Some ''00''), 100)"
  using download_check_order[of empty_world "''X''" test_digest 50 None None]
    download_check_order[of "active_world (Some 0) (Some ''00'')" "''X''" test_digest 101
      None None]
    download_check_order[of "active_world (Some 0) (Some ''00'')" "''X''" test_digest 100
      None None]
    download_check_order[of "active_world (Some 1) (Some ''00'')" "''X''" test_digest 100
      None None]
  by (simp add: test_defs file_download_def store_defs js_or_def Let_def)

subsection \<open>Rejected upload requests\<close>

text \<open>
  Claim C3, as the handler has it. An upload request with no body, with an empty
  filename or with size 0 fails with \<open>INVALID_REQUEST\<close>, and no store is called.
\<close>

theorem upload_init_missing_fields:
  "body_opt = None \<or> (\<exists>b. body_opt = Some b \<and> (req_filename b = [] \<or> req_size b = 0))
   \<Longrightarrow> upload_init env digest now fileUUID body_opt w = (Inl (INVALID_REQUEST, 400), w)"
  by (auto simp add: upload_init_def)

theorem upload_init_missing_fields_witness:
  "upload_init test_env test_digest 0 ''X'' (Some (test_request [] 10)) empty_world
     = (Inl (INVALID_REQUEST, 400), empty_world)
   \<and> upload_init test_env test_digest 0 ''X'' (Some (test_request ''a.txt'' 0)) empty_world
     = (Inl (INVALID_REQUEST, 400), empty_world)
   \<and> upload_init test_env test_digest 0 ''X'' None empty_world
     = (Inl (INVALID_REQUEST, 400), empty_world)"
  using upload_init_missing_fields[of "Some (test_request [] 10)" test_env test_digest 0
      "''X''" empty_world]
    upload_init_missing_fields[of "Some (test_request ''a.txt'' 0)" test_env test_digest 0
      "''X''" empty_world]
    upload_init_missing_fields[of None test_env test_digest 0 "''X''" empty_world]
  by (simp add: test_request_def)

text \<open>
  Claim C3 as stated also rejects a negative size. \<^verbatim>\<open>!body.size\<close> is false of \<open>-5\<close>,
  and \<open>-5\<close> is not above the maximum: the request is accepted and the pending record
  is written.
\<close>

theorem upload_init_negative_size_counterexample:
  "fst (upload_init test_env test_digest 0 ''X'' (Some (test_request ''a.txt'' (- 5)))
          empty_world)
     = Inr \<lparr>upload_url = (''http://localhost:8787'', ''X'', 3600), file_uuid = ''X'',
            init_expires_at = 60\<rparr>
   \<and> FILE_KV (snd (upload_init test_env test_digest 0 ''X''
                     (Some (test_request ''a.txt'' (- 5))) empty_world)) ''pending:X''
     = Some (\<lparr>filename = ''a.txt'', size_bytes = - 5, mime = ''application/octet-stream'',
              uploaded_at = 0, expires_at = 60, downloads_left = Some 1, password_hash = None,
              r2_key = ''uploads/X/a.txt''\<rparr>, 900)"
  by (simp add: upload_init_def store_defs test_defs Let_def)

subsection \<open>Deleting a file\<close>

text \<open>
  Claim C4, as the handler has it. Deleting a file whose active record exists answers
  \<open>deleted\<close> and removes the metadata entry and the blob; deleting it again fails with
  \<open>NOT_FOUND\<close> and changes neither store.
\<close>

theorem revoke_twice:
  assumes "FILE_KV w (''file:'' @ uuid) = Some (m, t)"
  shows "fst (file_delete uuid w) = Inr ''deleted''
         \<and> FILE_KV (snd (file_delete uuid w)) = (FILE_KV w)(''file:'' @ uuid := None)
         \<and> R2_BUCKET (snd (file_delete uuid w)) = (R2_BUCKET w)(r2_key m := None)
         \<and> fst (file_delete uuid (snd (file_delete uuid w))) = Inl (NOT_FOUND, 404)
         \<and> FILE_KV (snd (file_delete uuid (snd (file_delete uuid w))))
             = FILE_KV (snd (file_delete uuid w))
         \<and> R2_BUCKET (snd (file_delete uuid (snd (file_delete uuid w))))
             = R2_BUCKET (snd (file_delete uuid w))"
  using assms by (simp add: file_delete_def store_defs Let_def)

theorem revoke_twice_witness:
  "fst (file_delete ''X'' (active_world None None)) = Inr ''deleted''
   \<and> fst (file_delete ''X'' (snd (file_delete ''X'' (active_world None None))))
     = Inl (NOT_FOUND, 404)"
proof -
  have kv: "FILE_KV (active_world None None) (''file:'' @ ''X'')
              = Some (test_meta None None, 100)"
    by (simp add: test_defs)
  from revoke_twice[OF kv] show ?thesis by simp
qed

text \<open>
  Claim C4 as stated has the second call succeed with \<open>deleted = false\<close> and no call
  ever return an error. The second of two deletions, and a deletion of a file that
  never existed, return the error \<open>NOT_FOUND\<close> with status 404.
\<close>

theorem revoke_second_call_counterexample:
  "fst (file_delete ''X'' (snd (file_delete ''X'' (active_world None None))))
     = Inl (NOT_FOUND, 404)
   \<and> fst (file_delete ''X'' empty_world) = Inl (NOT_FOUND, 404)"
  by (simp add: file_delete_def store_defs test_defs Let_def)

subsection \<open>The stored counter\<close>

text \<open>
  Let the active record have \<open>downloads_left = d\<close>. A download strictly before
  \<open>expires_at\<close> that succeeds and is not the last one leaves in the metadata store the
  same record with \<open>downloads_left = d - 1\<close> (put with the remaining seconds as TTL),
  and \<open>d - 1\<close> is positive.
\<close>

lemma download_persists_decrement:
  assumes "FILE_KV w (''file:'' @ uuid) = Some (m, t)"
    and "downloads_left m = Some d"
    and "now < expires_at m"
    and "file_download digest now uuid q h w = (Inr r, w')"
    and "\<not> isLastDownload r"
  shows "FILE_KV w' (''file:'' @ uuid)
           = Some (m\<lparr>downloads_left := Some (d - 1)\<rparr>, expires_at m - now)
         \<and> 0 < d - 1"
  using assms
  by (auto simp add: file_download_def store_defs Let_def split: if_splits option.splits)

text \<open>
  The second \<open>now = expires_at\<close> is the one instant at which a download is served
  (\<open>now > expires_at\<close> is false) and the remaining TTL is not positive. There a
  download of a file with no password and two or more downloads left succeeds, is not
  the last one, and makes no put: its only store calls are the read of the record and
  the read of the blob, and the metadata store is as it was.
\<close>

lemma download_at_expiry_skips_put:
  assumes "FILE_KV w (''file:'' @ uuid) = Some (m, t)"
    and "downloads_left m = Some d" and "2 \<le> d"
    and "password_hash m = None"
    and "R2_BUCKET w (r2_key m) = Some obj"
    and "now = expires_at m"
  shows "fst (file_download digest now uuid q h w)
           = Inr \<lparr>resp_body = body obj, content_type = mime m,
                  content_disposition_filename = filename m,
                  content_length = size_bytes m, isLastDownload = False\<rparr>
         \<and> FILE_KV (snd (file_download digest now uuid q h w)) = FILE_KV w
         \<and> calls (snd (file_download digest now uuid q h w))
             = calls w @ [KV_get (''file:'' @ uuid), R2_get (r2_key m)]"
  using assms by (simp add: file_download_def store_defs Let_def)

text \<open>
  Claim C5 has every successful download of a limited file lower the stored
  \<open>downloads_left\<close> by exactly one. The handler does so before \<open>expires_at\<close>
  (\<open>download_persists_decrement\<close>) but not at \<open>now = expires_at\<close>, where the record is
  not yet expired for the check \<open>now > expires_at\<close>: for the record with
  \<open>expires_at = 100\<close> and \<open>downloads_left = 2\<close>, the download at \<open>now = 100\<close> is served,
  is not the last one, and the stored record still has \<open>downloads_left = 2\<close>; a second
  download at the same instant is served again from the same record.
\<close>

theorem download_at_expiry_not_persisted:
  "fst (file_download test_digest 100 ''X'' None None (active_world (Some 2) None))
     = Inr \<lparr>resp_body = ''0123456789'', content_type = ''text/plain'',
            content_disposition_filename = ''a.txt'', content_length = 10,
            isLastDownload = False\<rparr>
   \<and> FILE_KV (snd (file_download test_digest 100 ''X'' None None (active_world (Some 2) None)))
       ''file:X''
     = Some (test_meta (Some 2) None, 100)
   \<and> fst (file_download test_digest 100 ''X'' None None
            (snd (file_download test_digest 100 ''X'' None None (active_world (Some 2) None))))
     = Inr \<lparr>resp_body = ''0123456789'', content_type = ''text/plain'',
            content_disposition_filename = ''a.txt'', content_length = 10,
            isLastDownload = False\<rparr>"
  by (simp add: file_download_def store_defs test_defs Let_def js_or_def)

subsection \<open>Finalizing an upload\<close>

lemma upload_put_written:
  assumes "upload_put now0 uuid expiresParam req_body w0 = (Inr r, w)"
    and "FILE_KV w0 (''pending:'' @ uuid) = Some (m, t)"
  shows "\<exists>bytes. req_body = Some bytes
           \<and> FILE_KV w = FILE_KV w0
           \<and> R2_BUCKET w = (R2_BUCKET w0)(r2_key m \<mapsto>
                 \<lparr>body = bytes, contentType = mime m, custom_filename = filename m,
                   custom_uuid = uuid\<rparr>)
           \<and> calls w = calls w0 @ [KV_get (''pending:'' @ uuid),
                 R2_put (r2_key m) \<lparr>body = bytes, contentType = mime m,
                   custom_filename = filename m, custom_uuid = uuid\<rparr>]"
  using assms
  by (auto simp add: upload_put_def store_defs Let_def split: if_splits option.splits)

text \<open>
  Claim C6. Let the upload handler have written the bytes of \<open>uuid\<close> (it answered
  \<open>uploaded\<close>), and let the file not have expired (\<open>now < expires_at\<close>; otherwise
  finalize answers \<open>EXPIRED\<close>). Then finalize succeeds; its store calls are, in this
  order, the read of the pending record, the probe of the blob, the put of the active
  record (with the probed size) and the deletion of the pending record; and a second
  finalize, at any time, fails with \<open>NOT_FOUND\<close> after reading the pending key only.
\<close>

theorem finalize_succeeds_once:
  assumes "upload_put now0 uuid expiresParam (Some bytes) w0 = (Inr r, w)"
    and "FILE_KV w0 (''pending:'' @ uuid) = Some (m, t)"
    and "uuid \<noteq> []"
    and "now < expires_at m"
  shows "fst (upload_finalize env now (Some \<lparr>fin_file_uuid = uuid\<rparr>) w)
           = Inr \<lparr>download_link = (BASE_URL env, uuid), status = ''active''\<rparr>
         \<and> calls (snd (upload_finalize env now (Some \<lparr>fin_file_uuid = uuid\<rparr>) w))
           = calls w @ [KV_get (''pending:'' @ uuid), R2_head (r2_key m),
                        KV_put (''file:'' @ uuid) (m\<lparr>size_bytes := int (length bytes)\<rparr>)
                          (expires_at m - now),
                        KV_delete (''pending:'' @ uuid)]
         \<and> FILE_KV (snd (upload_finalize env now (Some \<lparr>fin_file_uuid = uuid\<rparr>) w))
           = (FILE_KV w)(''file:'' @ uuid \<mapsto>
                 (m\<lparr>size_bytes := int (length bytes)\<rparr>, expires_at m - now),
               ''pending:'' @ uuid := None)
         \<and> upload_finalize env now' (Some \<lparr>fin_file_uuid = uuid\<rparr>)
               (snd (upload_finalize env now (Some \<lparr>fin_file_uuid = uuid\<rparr>) w))
           = (Inl (NOT_FOUND, 404),
              (snd (upload_finalize env now (Some \<lparr>fin_file_uuid = uuid\<rparr>) w))
                \<lparr>calls := calls (snd (upload_finalize env now
                                         (Some \<lparr>fin_file_uuid = uuid\<rparr>) w))
                            @ [KV_get (''pending:'' @ uuid)]\<rparr>)"
proof -
  from upload_put_written[OF assms(1,2)]
  have kv: "FILE_KV w (''pending:'' @ uuid) = Some (m, t)"
    and r2: "R2_BUCKET w (r2_key m) = Some \<lparr>body = bytes, contentType = mime m,
                custom_filename = filename m, custom_uuid = uuid\<rparr>"
    using assms(2) by auto
  have fin: "upload_finalize env now (Some \<lparr>fin_file_uuid = uuid\<rparr>) w
      = (Inr \<lparr>download_link = (BASE_URL env, uuid), status = ''active''\<rparr>,
         w\<lparr>FILE_KV := (FILE_KV w)(''file:'' @ uuid \<mapsto>
                 (m\<lparr>size_bytes := int (length bytes)\<rparr>, expires_at m - now),
               ''pending:'' @ uuid := None),
           calls := calls w @ [KV_get (''pending:'' @ uuid), R2_head (r2_key m),
                        KV_put (''file:'' @ uuid) (m\<lparr>size_bytes := int (length bytes)\<rparr>)
                          (expires_at m - now),
                        KV_delete (''pending:'' @ uuid)]\<rparr>)"
    using kv r2 assms(3,4) by (simp add: upload_finalize_def store_defs Let_def)
  show ?thesis
    unfolding fin using assms(3) by (simp add: upload_finalize_def store_defs Let_def)
qed

theorem finalize_succeeds_once_witness:
  "fst (upload_finalize test_env 50 (Some \<lparr>fin_file_uuid = ''X''\<rparr>)
          (snd (upload_put 10 ''X'' (Some 3600) (Some ''0123456789'') pending_world)))
     = Inr \<lparr>download_link = (''http://localhost:8787'', ''X''), status = ''active''\<rparr>
   \<and> fst (upload_finalize test_env 51 (Some \<lparr>fin_file_uuid = ''X''\<rparr>)
          (snd (upload_finalize test_env 50 (Some \<lparr>fin_file_uuid = ''X''\<rparr>)
             (snd (upload_put 10 ''X'' (Some 3600) (Some ''0123456789'') pending_world)))))
     = Inl (NOT_FOUND, 404)"
proof -
  have put: "upload_put 10 ''X'' (Some 3600) (Some ''0123456789'') pending_world
      = (Inr (''uploaded'', ''X''),
         snd (upload_put 10 ''X'' (Some 3600) (Some ''0123456789'') pending_world))"
    by (simp add: upload_put_def store_defs test_defs Let_def)
  have kv: "FILE_KV pending_world (''pending:'' @ ''X'') = Some (test_meta (Some 1) None, 900)"
    by (simp add: test_defs)
  have uuid: "''X'' \<noteq> []" by simp
  have before: "50 < expires_at (test_meta (Some 1) None)" by (simp add: test_defs)
  from finalize_succeeds_once[OF put kv uuid before, of test_env 51]
  show ?thesis by (simp add: test_defs)
qed

text \<open>
  Claim C7. If the pending record of \<open>uuid\<close> exists and the probe of the bucket for
  its \<open>r2_key\<close> finds nothing, finalize fails with the code \<open>FILE_MISSING\<close> (status 404;
  this is the handler's code for the upload not being complete), having only read the
  pending record and probed the bucket: no record is written, active or other.
\<close>

theorem finalize_without_blob:
  assumes "FILE_KV w (''pending:'' @ uuid) = Some (m, t)"
    and "fst (r2_head (r2_key m) w) = None"
    and "uuid \<noteq> []"
  shows "upload_finalize env now (Some \<lparr>fin_file_uuid = uuid\<rparr>) w
           = (Inl (FILE_MISSING, 404),
              w\<lparr>calls := calls w @ [KV_get (''pending:'' @ uuid), R2_head (r2_key m)]\<rparr>)"
  using assms by (simp add: upload_finalize_def store_defs Let_def)

theorem finalize_without_blob_witness:
  "upload_finalize test_env 50 (Some \<lparr>fin_file_uuid = ''X''\<rparr>) pending_world
     = (Inl (FILE_MISSING, 404),
        pending_world\<lparr>calls := [KV_get ''pending:X'', R2_head ''uploads/X/a.txt'']\<rparr>)"
proof -
  have kv: "FILE_KV pending_world (''pending:'' @ ''X'') = Some (test_meta (Some 1) None, 900)"
    by (simp add: test_defs)
  have probe: "fst (r2_head (r2_key (test_meta (Some 1) None)) pending_world) = None"
    by (simp add: test_defs r2_head_def)
  have uuid: "''X'' \<noteq> []" by simp
  from finalize_without_blob[OF kv probe uuid, of test_env 50]
  show ?thesis by (simp add: test_defs)
qed

subsection \<open>The summary of a file\<close>

text \<open>
  Claim C9. The info handler has no expiry check: whenever the active record is still
  in the metadata store it answers with the public view of the record (filename, size,
  mime, uploaded_at, expires_at, downloads_left, has_password), also at a time
  \<open>now > expires_at\<close>, at which a download of the same file in the same state fails
  with \<open>EXPIRED\<close>.
\<close>

theorem info_has_no_expiry_check:
  assumes "FILE_KV w (''file:'' @ uuid) = Some (m, t)"
    and "now > expires_at m"
  shows "file_info uuid w
           = (Inr \<lparr>info_filename = filename m, info_size = size_bytes m, info_mime = mime m,
                   info_uploaded_at = uploaded_at m, info_expires_at = expires_at m,
                   info_downloads_left = downloads_left m,
                   has_password = (password_hash m \<noteq> None)\<rparr>,
              w\<lparr>calls := calls w @ [KV_get (''file:'' @ uuid)]\<rparr>)
         \<and> fst (file_download digest now uuid q h w) = Inl (EXPIRED, 410)"
  using assms by (simp add: file_info_def file_download_def store_defs Let_def)

theorem info_has_no_expiry_check_witness:
  "fst (file_info ''X'' (active_world (Some 2) None))
     = Inr \<lparr>info_filename = ''a.txt'', info_size = 10, info_mime = ''text/plain'',
            info_uploaded_at = 0, info_expires_at = 100, info_downloads_left = Some 2,
            has_password = False\<rparr>
   \<and> fst (file_download test_digest 500 ''X'' None None (active_world (Some 2) None))
     = Inl (EXPIRED, 410)"
proof -
  have kv: "FILE_KV (active_world (Some 2) None) (''file:'' @ ''X'')
              = Some (test_meta (Some 2) None, 100)"
    by (simp add: test_defs)
  have late: "500 > expires_at (test_meta (Some 2) None)" by (simp add: test_defs)
  from info_has_no_expiry_check[OF kv late, of test_digest None None]
  show ?thesis by (simp add: test_defs)
qed

subsection \<open>Hashing and verifying a password\<close>

text \<open>
  The upload handler hashes a password only when it is not empty, so a stored hash is
  always the hash of a non-empty password.
\<close>

lemma upload_init_password_hash:
  assumes "upload_init env digest now fileUUID (Some b) w = (Inr r, w')"
  shows "\<exists>m. FILE_KV w' (''pending:'' @ fileUUID) = Some (m, 900)
           \<and> password_hash m = (case req_password b of
                 Some p \<Rightarrow> if p \<noteq> [] then Some (hashPassword digest p) else None
               | None \<Rightarrow> None)"
proof -
  have guard: "\<not> (req_filename b = [] \<or> req_size b = 0)"
    using assms by (auto simp add: upload_init_def)
  have small: "\<not> req_size b > MAX_FILE_SIZE env"
    using assms guard by (auto simp add: upload_init_def Let_def)
  from assms have "w' = snd (upload_init env digest now fileUUID (Some b) w)"
    by simp
  then show ?thesis
    using guard small
    by (simp add: upload_init_def kv_put_def Let_def split: option.splits)
qed

text \<open>
  Claim C10. For every digest function and every password \<open>p\<close>: verifying \<open>p\<close>
  against its own hash is true; verifying \<open>p\<close> against a stored hash \<open>s\<close> is true
  exactly when the hash of \<open>p\<close> is \<open>s\<close>; and a download that supplies \<open>p\<close> (as the
  query parameter, or as the header when the query parameter is absent or empty) for a
  record whose \<open>password_hash\<close> is the hash of \<open>p\<close> never fails with
  \<open>PASSWORD_REQUIRED\<close> or \<open>INVALID_PASSWORD\<close>: it passes the password gate.
\<close>

theorem hash_verify_round_trip:
  "verifyPassword digest p (hashPassword digest p)
   \<and> (verifyPassword digest p s \<longleftrightarrow> hashPassword digest p = s)
   \<and> (\<forall>m t. FILE_KV w (''file:'' @ uuid) = Some (m, t)
          \<and> password_hash m = Some (hashPassword digest p) \<and> p \<noteq> []
          \<and> js_or query_password header_password = Some p \<longrightarrow>
        fst (file_download digest now uuid query_password header_password w)
          \<notin> {Inl (PASSWORD_REQUIRED, 401), Inl (INVALID_PASSWORD, 403)})"
proof (intro conjI allI impI)
  show "verifyPassword digest p (hashPassword digest p)"
    by (simp add: verifyPassword_def)
  show "verifyPassword digest p s \<longleftrightarrow> hashPassword digest p = s"
    by (simp add: verifyPassword_def)
next
  fix m t
  assume a: "FILE_KV w (''file:'' @ uuid) = Some (m, t)
          \<and> password_hash m = Some (hashPassword digest p) \<and> p \<noteq> []
          \<and> js_or query_password header_password = Some p"
  then have kv: "FILE_KV w (''file:'' @ uuid) = Some (m, t)"
    and ph: "password_hash m = Some (hashPassword digest p)"
    and ne: "p \<noteq> []"
    and given: "js_or query_password header_password = Some p"
    by simp_all
  from ne have supplied: "js_or (js_or query_password header_password) (Some []) = Some p"
    unfolding given by (simp add: js_or_def)
  from kv ph ne show "fst (file_download digest now uuid query_password header_password w)
          \<notin> {Inl (PASSWORD_REQUIRED, 401), Inl (INVALID_PASSWORD, 403)}"
    by (simp add: file_download_def store_defs Let_def supplied verifyPassword_def
        split: option.splits)
qed

theorem hash_verify_round_trip_witness:
  "hashPassword test_digest ''hi!'' = ''216968''
   \<and> verifyPassword test_digest ''hi!'' ''216968''
   \<and> FILE_KV (active_world None (Some ''216968'')) ''file:X''
       = Some (test_meta None (Some ''216968''), 100)
   \<and> js_or None (Some ''hi!'') = Some ''hi!''
   \<and> fst (file_download test_digest 50 ''X'' None (Some ''hi!'')
            (active_world None (Some ''216968'')))
       \<notin> {Inl (PASSWORD_REQUIRED, 401), Inl (INVALID_PASSWORD, 403)}"
proof -
  have hash: "hashPassword test_digest ''hi!'' = ''216968''"
    by (simp add: hashPassword_def encode_def padStart_def hex_digit_def test_defs)
  have kv: "FILE_KV (active_world None (Some ''216968'')) (''file:'' @ ''X'')
       = Some (test_meta None (Some ''216968''), 100)"
    by (simp add: test_defs)
  have ph: "password_hash (test_meta None (Some ''216968''))
       = Some (hashPassword test_digest ''hi!'')"
    by (simp add: hash) (simp add: test_defs)
  have supplied: "js_or None (Some ''hi!'') = Some ''hi!''"
    by (simp add: js_or_def)
  note rt = hash_verify_round_trip[of test_digest "''hi!''" "''216968''"
      "active_world None (Some ''216968'')" "''X''" None "Some ''hi!''" 50]
  from rt have v: "verifyPassword test_digest ''hi!'' ''216968''"
    using hash by simp
  from rt kv ph supplied
  have gate: "fst (file_download test_digest 50 ''X'' None (Some ''hi!'')
            (active_world None (Some ''216968'')))
       \<notin> {Inl (PASSWORD_REQUIRED, 401), Inl (INVALID_PASSWORD, 403)}"
    by blast
  from hash v kv supplied gate show ?thesis by simp
qed

end
